theory Spec2Isabelle
  imports Complex_Main
begin

section \<open>Great-circle angle between two azimuth/elevation directions\<close>

text \<open>
  The program (main.py) converts two directions given by azimuth and elevation into
  3D vectors, computes the angle between them from the dot product, and prints it next
  to the value of the spherical law of cosines.

  Numbers: the program computes in float64 through numpy. The definitions below read every
  numpy operation as the real function it approximates (\<open>np.cos\<close> as \<open>cos\<close>,
  \<open>np.sqrt\<close> as \<open>sqrt\<close>, \<open>np.pi\<close> as \<open>pi\<close>); rounding error is outside the
  model. Only properties that do not rest on the absence of rounding are proved here: the
  range and the symmetry of \<open>angle_between\<close>, which hold for every pair of vectors, and
  the value of the printed angle at the example inputs, located in an interval a tenth of
  a degree wide. Properties whose content is the size of the rounding error itself (exact
  unit length, exact equality of two computed vectors or angles, agreement within a
  tolerance) are not stated over this model, where they would hold with error zero.
  Where numpy would produce a value that is not a number (a division by a zero norm, an
  inverse cosine outside \<open>[-1, 1]\<close>), the model returns \<open>None\<close>.
\<close>

subsection \<open>Arrays of shape (3,) and the numpy operations used\<close>

text \<open>\<open>np.array([x, y, z], dtype=float)\<close>: every array of the program has three components.\<close>

datatype vec3 = Vec3 (vx: real) (vy: real) (vz: real)

text \<open>\<open>np.dot(v1, v2)\<close> on two 1-D arrays: the sum of the componentwise products.\<close>

definition dot :: "vec3 \<Rightarrow> vec3 \<Rightarrow> real" where
  "dot v1 v2 = vx v1 * vx v2 + vy v1 * vy v2 + vz v1 * vz v2"

text \<open>\<open>np.linalg.norm(v)\<close> on a 1-D array: the Euclidean norm.\<close>

definition linalg_norm :: "vec3 \<Rightarrow> real" where
  "linalg_norm v = sqrt ((vx v)\<^sup>2 + (vy v)\<^sup>2 + (vz v)\<^sup>2)"

text \<open>
  \<open>v / n\<close> for an array and a scalar: componentwise division. With \<open>n = 0\<close> numpy
  yields nan or inf components; the model has no such vector and returns \<open>None\<close>.
\<close>

definition divide_vec :: "vec3 \<Rightarrow> real \<Rightarrow> vec3 option" where
  "divide_vec v n = (if n = 0 then None else Some (Vec3 (vx v / n) (vy v / n) (vz v / n)))"

text \<open>\<open>np.clip(a, lo, hi)\<close> is \<open>minimum(maximum(a, lo), hi)\<close>.\<close>

definition clip :: "real \<Rightarrow> real \<Rightarrow> real \<Rightarrow> real" where
  "clip a lo hi = min (max a lo) hi"

text \<open>\<open>np.arccos(c)\<close>: nan (with a warning) outside \<open>[-1, 1]\<close>, modelled as \<open>None\<close>.\<close>

definition np_arccos :: "real \<Rightarrow> real option" where
  "np_arccos c = (if - 1 \<le> c \<and> c \<le> 1 then Some (arccos c) else None)"

text \<open>\<open>np.radians\<close> and \<open>np.degrees\<close>.\<close>

definition radians :: "real \<Rightarrow> real" where
  "radians d = d * pi / 180"

definition degrees :: "real \<Rightarrow> real" where
  "degrees r = r * 180 / pi"

subsection \<open>The two helpers\<close>

definition azel_to_vec :: "real \<Rightarrow> real \<Rightarrow> vec3 option" where
  "azel_to_vec az el =
     (let ce = cos el;
          x = ce * cos az;
          y = ce * sin az;
          z = sin el;
          v = Vec3 x y z
      in divide_vec v (linalg_norm v))"

definition angle_between :: "vec3 \<Rightarrow> vec3 \<Rightarrow> real option" where
  "angle_between v1 v2 = (let c = clip (dot v1 v2) (- 1) 1 in np_arccos c)"

subsection \<open>The script\<close>

text \<open>The example angles, the two vectors and the two printed angles (lines 35 to 52).\<close>

definition AZ_T_deg :: real where "AZ_T_deg = 40"
definition EL_T_deg :: real where "EL_T_deg = 25"
definition AZ_R_deg :: real where "AZ_R_deg = 10"
definition EL_R_deg :: real where "EL_R_deg = 5"

definition AZ_T :: real where "AZ_T = radians AZ_T_deg"
definition EL_T :: real where "EL_T = radians EL_T_deg"
definition AZ_R :: real where "AZ_R = radians AZ_R_deg"
definition EL_R :: real where "EL_R = radians EL_R_deg"

definition vT :: "vec3 option" where "vT = azel_to_vec AZ_T EL_T"
definition vR :: "vec3 option" where "vR = azel_to_vec AZ_R EL_R"

definition J :: "real option" where
  "J = (case vT of
          None \<Rightarrow> None
        | Some v_t \<Rightarrow> (case vR of None \<Rightarrow> None | Some v_r \<Rightarrow> angle_between v_t v_r))"

definition J_deg :: "real option" where
  "J_deg = map_option degrees J"

definition cosJ_trig :: real where
  "cosJ_trig = sin EL_T * sin EL_R + cos EL_T * cos EL_R * cos (AZ_T - AZ_R)"

definition J_trig :: "real option" where
  "J_trig = map_option degrees (np_arccos (clip cosJ_trig (- 1) 1))"

text \<open>An optional value lies in a closed interval.\<close>

definition in_range :: "real option \<Rightarrow> real \<Rightarrow> real \<Rightarrow> bool" where
  "in_range r lo hi = (case r of None \<Rightarrow> False | Some d \<Rightarrow> lo \<le> d \<and> d \<le> hi)"

section \<open>Properties of the helpers\<close>

lemma raw_norm: "linalg_norm (Vec3 (cos el * cos az) (cos el * sin az) (sin el)) = 1"
proof -
  have "(cos el * cos az)\<^sup>2 + (cos el * sin az)\<^sup>2
        = (cos el)\<^sup>2 * ((cos az)\<^sup>2 + (sin az)\<^sup>2)"
    by (simp only: power_mult_distrib distrib_left)
  then have "(cos el * cos az)\<^sup>2 + (cos el * sin az)\<^sup>2 + (sin el)\<^sup>2 = 1"
    by simp
  then show ?thesis
    by (simp add: linalg_norm_def)
qed

lemma azel_to_vec_raw:
  "azel_to_vec az el = Some (Vec3 (cos el * cos az) (cos el * sin az) (sin el))"
  by (simp add: azel_to_vec_def Let_def divide_vec_def raw_norm)

lemma clip_bounds: "- 1 \<le> clip a (- 1) 1 \<and> clip a (- 1) 1 \<le> 1"
  by (simp add: clip_def)

lemma clip_id: "- 1 \<le> a \<Longrightarrow> a \<le> 1 \<Longrightarrow> clip a (- 1) 1 = a"
  by (simp add: clip_def)

lemma angle_between_arccos:
  "angle_between v1 v2 = Some (arccos (clip (dot v1 v2) (- 1) 1))"
  using clip_bounds [of "dot v1 v2"] by (simp add: angle_between_def Let_def np_arccos_def)

lemma dot_raw:
  "dot (Vec3 (cos e1 * cos a1) (cos e1 * sin a1) (sin e1))
       (Vec3 (cos e2 * cos a2) (cos e2 * sin a2) (sin e2))
   = sin e1 * sin e2 + cos e1 * cos e2 * cos (a1 - a2)"
  by (simp add: dot_def cos_diff algebra_simps)

section \<open>The angular separation\<close>

text \<open>
  C6. \<open>angle_between\<close> returns an angle for every pair of vectors (unit or not), the
  angle lies in \<open>[0, pi]\<close>, and the value handed to the inverse cosine lies in
  \<open>[-1, 1]\<close>, so the branch without a result is never taken.
\<close>

theorem angle_between_total_range:
  "\<exists>a. angle_between v1 v2 = Some a \<and> 0 \<le> a \<and> a \<le> pi
       \<and> - 1 \<le> clip (dot v1 v2) (- 1) 1 \<and> clip (dot v1 v2) (- 1) 1 \<le> 1"
  using clip_bounds [of "dot v1 v2"]
  by (simp add: angle_between_arccos arccos_lbound arccos_ubound)

text \<open>
  C8. \<open>angle_between\<close> does not depend on the order of its two arguments.
\<close>

theorem angle_between_commute: "angle_between v1 v2 = angle_between v2 v1"
  by (simp add: angle_between_def dot_def mult.commute)

section \<open>The example angles of the script\<close>

subsection \<open>Bounds from the Taylor polynomials of sine and cosine\<close>

text \<open>
  The printed angle is pinned between rational bounds. Sine and cosine are enclosed by
  their Taylor polynomials with the Lagrange remainder; \<open>pi\<close> is enclosed from
  \<open>sin (pi / 6) = 1 / 2\<close> and the monotonicity of sine.
\<close>

lemma cos_poly8: "(\<Sum>m<8. cos_coeff m * x ^ m) = 1 - x\<^sup>2 / 2 + x ^ 4 / 24 - x ^ 6 / 720" for x :: real
  by (simp add: eval_nat_numeral lessThan_Suc cos_coeff_Suc sin_coeff_Suc)

lemma sin_poly9: "(\<Sum>m<9. sin_coeff m * x ^ m) = x - x ^ 3 / 6 + x ^ 5 / 120 - x ^ 7 / 5040" for x :: real
  by (simp add: eval_nat_numeral lessThan_Suc cos_coeff_Suc sin_coeff_Suc)

lemma cos_taylor8:
  fixes x :: real
  shows "\<bar>cos x - (1 - x\<^sup>2 / 2 + x ^ 4 / 24 - x ^ 6 / 720)\<bar> \<le> x ^ 8 / 40320"
proof -
  from Maclaurin_cos_expansion [of x 8] obtain t where
    t: "cos x = (\<Sum>m<8. cos_coeff m * x ^ m) + (cos (t + 1 / 2 * real 8 * pi) / fact 8) * x ^ 8"
    by blast
  have f: "fact 8 = (40320 :: real)"
    by (simp add: eval_nat_numeral)
  have "\<bar>cos (t + 1 / 2 * real 8 * pi) * (x ^ 8 / 40320)\<bar> \<le> 1 * (x ^ 8 / 40320)"
    unfolding abs_mult by (rule mult_mono) simp_all
  then show ?thesis
    unfolding t cos_poly8 f by simp
qed

lemma sin_taylor9:
  fixes x :: real
  shows "\<bar>sin x - (x - x ^ 3 / 6 + x ^ 5 / 120 - x ^ 7 / 5040)\<bar> \<le> \<bar>x\<bar> ^ 9 / 362880"
proof -
  have f: "fact 9 = (362880 :: real)"
    by (simp add: eval_nat_numeral)
  from Maclaurin_sin_bound [of x 9] show ?thesis
    unfolding sin_poly9 f by (simp add: field_simps)
qed

lemma sin_upper9:
  fixes x :: real
  assumes "0 \<le> x"
  shows "sin x \<le> x - x ^ 3 / 6 + x ^ 5 / 120 - x ^ 7 / 5040 + x ^ 9 / 362880"
proof -
  have "\<bar>x\<bar> ^ 9 = x ^ 9"
    using assms by simp
  with sin_taylor9 [of x] show ?thesis
    by linarith
qed

lemma sin_lower9:
  fixes x :: real
  assumes "0 \<le> x"
  shows "x - x ^ 3 / 6 + x ^ 5 / 120 - x ^ 7 / 5040 - x ^ 9 / 362880 \<le> sin x"
proof -
  have "\<bar>x\<bar> ^ 9 = x ^ 9"
    using assms by simp
  with sin_taylor9 [of x] show ?thesis
    by linarith
qed

lemma cos_upper8:
  fixes x :: real
  shows "cos x \<le> 1 - x\<^sup>2 / 2 + x ^ 4 / 24 - x ^ 6 / 720 + x ^ 8 / 40320"
  using cos_taylor8 [of x] by linarith

lemma cos_lower8:
  fixes x :: real
  shows "1 - x\<^sup>2 / 2 + x ^ 4 / 24 - x ^ 6 / 720 - x ^ 8 / 40320 \<le> cos x"
  using cos_taylor8 [of x] by linarith

lemma pi_gt_31415: "31415 / 10000 < pi"
proof (rule ccontr)
  assume "\<not> 31415 / 10000 < pi"
  then have le: "pi / 6 \<le> 31415 / 60000"
    by simp
  have "31415 / 60000 \<le> pi / 2"
    using pi_ge_two by simp
  with le have "sin (pi / 6) \<le> sin (31415 / 60000)"
    using pi_gt_zero by (intro sin_monotone_2pi_le) simp_all
  moreover have "sin (31415 / 60000 :: real) < 1 / 2"
    by (rule le_less_trans [OF sin_upper9]) (simp_all add: power_divide)
  ultimately show False
    by (simp add: sin_30)
qed

lemma pi_lt_31416: "pi < 31416 / 10000"
proof (rule ccontr)
  assume "\<not> pi < 31416 / 10000"
  then have le: "31416 / 60000 \<le> pi / 6"
    by simp
  then have "sin (31416 / 60000) \<le> sin (pi / 6)"
    using pi_gt_zero by (intro sin_monotone_2pi_le) simp_all
  moreover have "1 / 2 < sin (31416 / 60000 :: real)"
    by (rule less_le_trans [OF _ sin_lower9]) (simp_all add: power_divide)
  ultimately show False
    by (simp add: sin_30)
qed

lemma sqrt3_bounds: "173205 / 100000 < sqrt 3" "sqrt 3 < 173206 / 100000"
  by (rule real_less_rsqrt, simp add: power2_eq_square)
     (rule real_less_lsqrt, simp_all add: power2_eq_square)

subsection \<open>The value the script prints\<close>

text \<open>
  With elevations of 25 and 5 degrees and an azimuth difference of 30 degrees, the
  products of the law of cosines reduce to \<open>cos (pi / 9)\<close> (20 degrees) and
  \<open>cos (pi / 6) = sqrt 3 / 2\<close>. The cosine of the angle lies strictly between the
  cosines of 35.1 and 35 degrees.
\<close>

lemma cos_20deg_bounds: "93969 / 100000 \<le> cos (pi / 9)" "cos (pi / 9) \<le> 93970 / 100000"
proof -
  have "cos (31416 / 90000) \<le> cos (pi / 9)"
    using pi_lt_31416 pi_gt_31415 by (intro cos_monotone_0_pi_le) simp_all
  moreover have "93969 / 100000 \<le> cos (31416 / 90000 :: real)"
    by (rule order_trans [OF _ cos_lower8]) (simp add: power_divide)
  ultimately show "93969 / 100000 \<le> cos (pi / 9)"
    by linarith
  have "cos (pi / 9) \<le> cos (31415 / 90000)"
    using pi_lt_31416 pi_gt_31415 by (intro cos_monotone_0_pi_le) simp_all
  moreover have "cos (31415 / 90000 :: real) \<le> 93970 / 100000"
    by (rule order_trans [OF cos_upper8]) (simp add: power_divide)
  ultimately show "cos (pi / 9) \<le> 93970 / 100000"
    by linarith
qed

lemma cos_35deg_lower: "81915 / 100000 \<le> cos (7 * pi / 36)"
proof -
  have "cos (7 * (31416 / 10000) / 36) \<le> cos (7 * pi / 36)"
    using pi_lt_31416 pi_gt_31415 by (intro cos_monotone_0_pi_le) simp_all
  moreover have "81915 / 100000 \<le> cos (7 * (31416 / 10000) / 36 :: real)"
    by (rule order_trans [OF _ cos_lower8]) (simp add: power_divide)
  ultimately show ?thesis
    by linarith
qed

lemma cos_351deg_upper: "cos (351 * pi / 1800) \<le> 81817 / 100000"
proof -
  have "cos (351 * pi / 1800) \<le> cos (351 * (31415 / 10000) / 1800)"
    using pi_lt_31416 pi_gt_31415 by (intro cos_monotone_0_pi_le) simp_all
  moreover have "cos (351 * (31415 / 10000) / 1800 :: real) \<le> 81817 / 100000"
    by (rule order_trans [OF cos_upper8]) (simp add: power_divide)
  ultimately show ?thesis
    by linarith
qed

lemma cosJ_trig_closed:
  "cosJ_trig = (4 * cos (pi / 9) + 3 - 2 * sqrt 3 * (1 - cos (pi / 9))) / 8"
proof -
  define a where "a = 25 * pi / 180"
  define b where "b = 5 * pi / 180"
  have ab: "a - b = pi / 9" "a + b = pi / 6"
    by (simp_all add: a_def b_def)
  have az: "AZ_T - AZ_R = pi / 6"
    by (simp add: AZ_T_def AZ_R_def AZ_T_deg_def AZ_R_deg_def radians_def)
  have el: "EL_T = a" "EL_R = b"
    by (simp_all add: EL_T_def EL_R_def EL_T_deg_def EL_R_deg_def radians_def a_def b_def)
  define p where "p = cos a * cos b"
  define q where "q = sin a * sin b"
  have d: "p + q = cos (pi / 9)"
    using cos_diff [of a b] by (simp add: ab p_def q_def)
  have s: "p - q = sqrt 3 / 2"
    using cos_add [of a b] by (simp add: ab cos_30 p_def q_def)
  have p: "p = (cos (pi / 9) + sqrt 3 / 2) / 2"
    using d s by (simp add: field_simps)
  have q: "q = (cos (pi / 9) - sqrt 3 / 2) / 2"
    using d s by (simp add: field_simps)
  have r: "sqrt 3 * sqrt 3 = 3"
    by simp
  have "cosJ_trig = q + p * (sqrt 3 / 2)"
    by (simp add: cosJ_trig_def az el cos_30 p_def q_def)
  also have "\<dots> = (4 * cos (pi / 9) + 3 - 2 * sqrt 3 * (1 - cos (pi / 9))) / 8"
    unfolding p q using r by (simp add: field_simps)
  finally show ?thesis .
qed

lemma cosJ_trig_bounds: "81872 / 100000 \<le> cosJ_trig" "cosJ_trig \<le> 81875 / 100000"
proof -
  let ?c = "cos (pi / 9)"
  have "(173205 / 100000) * (1 - 93970 / 100000) \<le> sqrt 3 * (1 - ?c)"
    using sqrt3_bounds cos_20deg_bounds by (intro mult_mono) simp_all
  then show "cosJ_trig \<le> 81875 / 100000"
    unfolding cosJ_trig_closed using cos_20deg_bounds by simp
  have "sqrt 3 * (1 - ?c) \<le> (173206 / 100000) * (1 - 93969 / 100000)"
    using sqrt3_bounds cos_20deg_bounds by (intro mult_mono) simp_all
  then show "81872 / 100000 \<le> cosJ_trig"
    unfolding cosJ_trig_closed using cos_20deg_bounds by simp
qed

lemma J_arccos: "J = Some (arccos cosJ_trig)"
proof -
  have "clip cosJ_trig (- 1) 1 = cosJ_trig"
    using cosJ_trig_bounds by (intro clip_id) simp_all
  then show ?thesis
    by (simp add: J_def vT_def vR_def azel_to_vec_raw angle_between_arccos dot_raw
        cosJ_trig_def)
qed

lemma J_trig_arccos: "J_trig = Some (degrees (arccos cosJ_trig))"
proof -
  have "clip cosJ_trig (- 1) 1 = cosJ_trig"
    using cosJ_trig_bounds by (intro clip_id) simp_all
  then show ?thesis
    using cosJ_trig_bounds by (simp add: J_trig_def np_arccos_def)
qed

lemma arccos_cosJ_trig_bounds:
  "7 * pi / 36 \<le> arccos cosJ_trig" "arccos cosJ_trig \<le> 351 * pi / 1800"
proof -
  have "arccos (cos (7 * pi / 36)) \<le> arccos cosJ_trig"
    using cosJ_trig_bounds cos_35deg_lower by (intro arccos_le_arccos) simp_all
  moreover have "arccos (cos (7 * pi / 36)) = 7 * pi / 36"
    using pi_gt_zero by (intro arccos_cos) simp_all
  ultimately show "7 * pi / 36 \<le> arccos cosJ_trig"
    by simp
  have "arccos cosJ_trig \<le> arccos (cos (351 * pi / 1800))"
    using cosJ_trig_bounds cos_351deg_upper by (intro arccos_le_arccos) simp_all
  moreover have "arccos (cos (351 * pi / 1800)) = 351 * pi / 1800"
    using pi_gt_zero by (intro arccos_cos) simp_all
  ultimately show "arccos cosJ_trig \<le> 351 * pi / 1800"
    by simp
qed

lemma degrees_arccos_cosJ_trig_bounds:
  "35 \<le> degrees (arccos cosJ_trig)" "degrees (arccos cosJ_trig) \<le> 351 / 10"
  using arccos_cosJ_trig_bounds pi_gt_zero by (simp_all add: degrees_def field_simps)

text \<open>
  C2 (as stated in the specification). With the example angles (azimuth 40, elevation 25
  for the target; azimuth 10, elevation 5 for the roll axis, in degrees) the specification
  places both printed angles between 31.4 and 31.5 degrees. The script does not: both
  values are above 35 degrees.
\<close>

theorem example_angle_not_near_31:
  "\<not> (in_range J_deg (314 / 10) (315 / 10) \<and> in_range J_trig (314 / 10) (315 / 10))"
  using degrees_arccos_cosJ_trig_bounds
  by (simp add: in_range_def J_deg_def J_arccos J_trig_arccos)

text \<open>
  C2 (amended). With the example angles, the angle from the vectors and the angle from
  the spherical law of cosines are both between 35.0 and 35.1 degrees: they are the
  inverse cosine of \<open>sin 25 * sin 5 + cos 25 * cos 5 * cos 30\<close> (angles in degrees), converted to
  degrees. The two printed values are equal, and the two angles in radians differ by less
  than \<open>1e-6\<close>.
\<close>

theorem example_angle_near_35:
  "in_range J_deg 35 (351 / 10) \<and> in_range J_trig 35 (351 / 10) \<and> J_deg = J_trig
   \<and> J = Some (arccos (sin (radians 25) * sin (radians 5)
                        + cos (radians 25) * cos (radians 5) * cos (radians 30)))
   \<and> (\<exists>a b. J = Some a \<and> np_arccos (clip cosJ_trig (- 1) 1) = Some b \<and> \<bar>a - b\<bar> < 1 / 10 ^ 6)"
proof -
  have c: "clip cosJ_trig (- 1) 1 = cosJ_trig"
    using cosJ_trig_bounds by (intro clip_id) simp_all
  have "radians 40 - radians 10 = radians 30"
    by (simp add: radians_def)
  then have f: "cosJ_trig = sin (radians 25) * sin (radians 5)
                  + cos (radians 25) * cos (radians 5) * cos (radians 30)"
    by (simp add: cosJ_trig_def AZ_T_def AZ_R_def EL_T_def EL_R_def
        AZ_T_deg_def AZ_R_deg_def EL_T_deg_def EL_R_deg_def)
  have r: "in_range J_deg 35 (351 / 10)" "in_range J_trig 35 (351 / 10)" "J_deg = J_trig"
    using degrees_arccos_cosJ_trig_bounds
    by (simp_all add: in_range_def J_deg_def J_arccos J_trig_arccos)
  have j: "J = Some (arccos (sin (radians 25) * sin (radians 5)
                        + cos (radians 25) * cos (radians 5) * cos (radians 30)))"
    unfolding J_arccos f ..
  have e: "\<exists>a b. J = Some a \<and> np_arccos (clip cosJ_trig (- 1) 1) = Some b \<and> \<bar>a - b\<bar> < 1 / 10 ^ 6"
    unfolding c using cosJ_trig_bounds by (simp add: J_arccos np_arccos_def)
  from r j e show ?thesis
    by blast
qed

end
